theory Spec2Isabelle
  imports Complex_Main "HOL-Library.Word"
begin

section \<open>Strings of the save dialog\<close>

text \<open>
  A JavaScript string is a sequence of UTF-16 code units; \<open>length\<close>, \<open>substring\<close>,
  \<open>trim\<close> and the regular expressions of the dialog (none has the \<open>u\<close> flag) all
  count and compare code units. The literals of the source that are not ASCII are written
  as their code units.
\<close>

type_synonym jschar = "16 word"
type_synonym jsstring = "jschar list"

definition js :: "string \<Rightarrow> jsstring" where
  "js s = map of_char s"

text \<open>
  The characters that \<open>String.prototype.trim\<close> removes and that \<open>\s\<close> matches:
  ECMAScript's WhiteSpace and LineTerminator code points.
\<close>

definition isWhiteSpace :: "jschar \<Rightarrow> bool" where
  "isWhiteSpace c = (c \<in> set [0x09, 0x0A, 0x0B, 0x0C, 0x0D, 0x20, 0xA0, 0x1680,
     0x2000, 0x2001, 0x2002, 0x2003, 0x2004, 0x2005, 0x2006, 0x2007, 0x2008, 0x2009, 0x200A,
     0x2028, 0x2029, 0x202F, 0x205F, 0x3000, 0xFEFF])"

definition trim :: "jsstring \<Rightarrow> jsstring" where
  "trim s = rev (dropWhile isWhiteSpace (rev (dropWhile isWhiteSpace s)))"

definition startsWith :: "jsstring \<Rightarrow> jsstring \<Rightarrow> bool" where
  "startsWith s p = (take (length p) s = p)"

text \<open>\<open>s.substring(n)\<close> and \<open>s.substring(0, n)\<close>; both clamp \<open>n\<close> to the length.\<close>

definition substring_from :: "jsstring \<Rightarrow> nat \<Rightarrow> jsstring" where
  "substring_from s n = drop n s"

definition substring_to :: "jsstring \<Rightarrow> nat \<Rightarrow> jsstring" where
  "substring_to s n = take n s"

text \<open>The decimal digits of a template literal's \<open>${i + 1}\<close>.\<close>

fun decimal :: "nat \<Rightarrow> jsstring" where
  "decimal n = (if n < 10 then [0x30 + of_nat n]
                else decimal (n div 10) @ [0x30 + of_nat (n mod 10)])"

declare decimal.simps [simp del]

text \<open>
  Reading a decimal numeral back: the number that a string of digits denotes. It is
  what the index in an error message is checked against.
\<close>

definition decimal_value :: "jsstring \<Rightarrow> nat" where
  "decimal_value ds = foldl (\<lambda>a c. 10 * a + unat (c - 0x30)) 0 ds"

definition isDecimalDigit :: "jschar \<Rightarrow> bool" where
  "isDecimalDigit c = (c \<in> set [0x30, 0x31, 0x32, 0x33, 0x34, 0x35, 0x36, 0x37, 0x38, 0x39])"

section \<open>Parsed JSON values\<close>

text \<open>
  \<open>JSON.parse\<close> belongs to the platform, not to the repository: the validator takes it
  as a parameter that returns either the message of the error it throws (\<open>Inl\<close>) or the
  parsed value. Numbers are the doubles \<open>JSON.parse\<close> can produce; an object is its own
  properties in order, each key once.
\<close>

datatype jsnumber = Finite rat | PosInfinity | NegInfinity

datatype json =
    JNull
  | JBool bool
  | JNumber jsnumber
  | JString jsstring
  | JArray "json list"
  | JObject "(jsstring \<times> json) list"

type_synonym json_parser = "jsstring \<Rightarrow> jsstring + json"

text \<open>JavaScript's truthiness on parsed values; \<open>None\<close> is \<open>undefined\<close>.\<close>

fun truthy :: "json \<Rightarrow> bool" where
  "truthy JNull = False"
| "truthy (JBool b) = b"
| "truthy (JNumber n) = (n \<noteq> Finite 0)"
| "truthy (JString s) = (s \<noteq> [])"
| "truthy (JArray xs) = True"
| "truthy (JObject kvs) = True"

fun truthy_value :: "json option \<Rightarrow> bool" where
  "truthy_value None = False"
| "truthy_value (Some v) = truthy v"

text \<open>
  Reading a property, as in \<open>item.role\<close>: an object gives its property, \<open>null\<close>
  throws a TypeError (\<open>Inl\<close> of its message, whose text is the engine's; V8's is written
  here and no result depends on it), every other value (array, string, number, boolean)
  has no such property and gives \<open>undefined\<close>.
\<close>

definition msgNullRead :: "jsstring \<Rightarrow> jsstring" where
  "msgNullRead k = js ''Cannot read properties of null (reading '' @ [0x27] @ k @ [0x27] @ js '')''"

fun readProp :: "json \<Rightarrow> jsstring \<Rightarrow> jsstring + json option" where
  "readProp JNull k = Inl (msgNullRead k)"
| "readProp (JObject kvs) k = Inr (map_of kvs k)"
| "readProp _ k = Inr None"

section \<open>validateConversationJson\<close>

definition msgNotArray :: jsstring where
  \<comment> \<open>"must be an array format"\<close>
  "msgNotArray = [0x5FC5, 0x987B, 0x662F, 0x6570, 0x7EC4, 0x683C, 0x5F0F]"

definition msgMissing :: "nat \<Rightarrow> jsstring" where
  \<comment> \<open>"message n is missing the role or content field"\<close>
  "msgMissing n = [0x7B2C] @ decimal n @
     [0x6761, 0x6D88, 0x606F, 0x7F3A, 0x5C11] @ js ''role'' @ [0x6216] @ js ''content'' @
     [0x5B57, 0x6BB5]"

definition msgRole :: "nat \<Rightarrow> jsstring" where
  \<comment> \<open>"the role of message n must be user, assistant or system"\<close>
  "msgRole n = [0x7B2C] @ decimal n @
     [0x6761, 0x6D88, 0x606F, 0x7684] @ js ''role'' @ [0x5FC5, 0x987B, 0x662F] @ js ''user'' @
     [0x3001] @ js ''assistant'' @ [0x6216] @ js ''system''"

definition msgJsonFormat :: jsstring where
  \<comment> \<open>"JSON format error"\<close>
  "msgJsonFormat = js ''JSON'' @ [0x683C, 0x5F0F, 0x9519, 0x8BEF]"

definition allowedRoles :: "json option list" where
  "allowedRoles = map (\<lambda>r. Some (JString (js r))) [''user'', ''assistant'', ''system'']"

text \<open>
  The \<open>for\<close> loop over \<open>parsed\<close>, from index \<open>i\<close> on the remaining elements:
  \<open>Inr\<close> is the string the function returns from inside the loop (or the empty string
  after it), \<open>Inl\<close> the message of an error thrown inside the \<open>try\<close> block.
\<close>

fun checkItems :: "nat \<Rightarrow> json list \<Rightarrow> jsstring + jsstring" where
  "checkItems i [] = Inr []"
| "checkItems i (x # xs) =
     (let item = (if truthy x then x else JObject []) in
      case readProp item (js ''role'') of
        Inl e \<Rightarrow> Inl e
      | Inr role \<Rightarrow>
          if \<not> truthy_value role then Inr (msgMissing (i + 1))
          else
            (case readProp item (js ''content'') of
               Inl e \<Rightarrow> Inl e
             | Inr content \<Rightarrow>
                 if \<not> truthy_value content then Inr (msgMissing (i + 1))
                 else if role \<notin> set allowedRoles then Inr (msgRole (i + 1))
                 else checkItems (i + 1) xs))"

text \<open>
  The \<open>try\<close> block and its \<open>catch\<close>: \<open>error?.message || generic\<close> for whatever is
  thrown by \<open>JSON.parse\<close> or inside the loop.
\<close>

definition catchMessage :: "jsstring \<Rightarrow> jsstring" where
  "catchMessage message = (if message \<noteq> [] then message else msgJsonFormat)"

definition validateConversationJson :: "json_parser \<Rightarrow> jsstring \<Rightarrow> jsstring" where
  "validateConversationJson JSON_parse jsonStr =
     (if trim jsonStr = [] then []
      else case JSON_parse jsonStr of
        Inl message \<Rightarrow> catchMessage message
      | Inr parsed \<Rightarrow>
          (case parsed of
             JArray items \<Rightarrow>
               (case checkItems 0 items of
                  Inl message \<Rightarrow> catchMessage message
                | Inr result \<Rightarrow> result)
           | _ \<Rightarrow> msgNotArray))"

section \<open>formatConversationJson\<close>




section \<open>Regular expressions\<close>

text \<open>
  The patterns of the dialog use literal characters, the classes \<open>.\<close>, \<open>\w\<close>, \<open>\s\<close>,
  \<open>\d\<close>, bracket classes, quantifiers on a single character class (greedy, and the lazy
  \<open>.*?\<close>), one capturing group, one alternative, and \<open>^\<close> only in front. A pattern
  is a sequence of such nodes; the matcher is the backtracking matcher of ECMAScript
  written with lists of successes: the results of a node are the states after it in the
  order in which backtracking tries them.
\<close>

datatype atom = Chr jschar | Dot | Word | Space | Digit

datatype cls = One atom | Class "atom list" | NegClass "atom list"

datatype re =
    Atom cls
  | Repeat cls nat "nat option" bool
  | Capture "re list"
  | Alt "re list" "re list"

record regex =
  anchored :: bool
  ignoreCase :: bool
  body :: "re list"

text \<open>
  Canonicalize of the \<open>i\<close> flag without \<open>u\<close>: a character is compared by its upper
  case, and a character outside ASCII never becomes an ASCII one. Every literal of the
  patterns is ASCII or has no case (the CJK characters and the full-width colon), so on
  these patterns folding the ASCII letters is the whole rule.
\<close>

definition canonicalize :: "jschar \<Rightarrow> jschar" where
  "canonicalize c = (if 0x61 \<le> c \<and> c \<le> 0x7A then c - 0x20 else c)"

definition isWordChar :: "jschar \<Rightarrow> bool" where
  "isWordChar c = ((0x41 \<le> c \<and> c \<le> 0x5A) \<or> (0x61 \<le> c \<and> c \<le> 0x7A) \<or>
                   (0x30 \<le> c \<and> c \<le> 0x39) \<or> c = 0x5F)"

definition isDigit :: "jschar \<Rightarrow> bool" where
  "isDigit c = (0x30 \<le> c \<and> c \<le> 0x39)"

definition isLineTerminator :: "jschar \<Rightarrow> bool" where
  "isLineTerminator c = (c \<in> set [0x0A, 0x0D, 0x2028, 0x2029])"

fun atom_match :: "bool \<Rightarrow> atom \<Rightarrow> jschar \<Rightarrow> bool" where
  "atom_match ic (Chr c) d = (if ic then canonicalize c = canonicalize d else c = d)"
| "atom_match ic Dot d = (\<not> isLineTerminator d)"
| "atom_match ic Word d = isWordChar d"
| "atom_match ic Space d = isWhiteSpace d"
| "atom_match ic Digit d = isDigit d"

fun cls_match :: "bool \<Rightarrow> cls \<Rightarrow> jschar \<Rightarrow> bool" where
  "cls_match ic (One a) d = atom_match ic a d"
| "cls_match ic (Class as) d = (\<exists>a \<in> set as. atom_match ic a d)"
| "cls_match ic (NegClass as) d = (\<not> (\<exists>a \<in> set as. atom_match ic a d))"

text \<open>
  A matcher state: the input not yet consumed and the text of group 1 so far.
  \<open>repeat_counts lo hi greedy n\<close> lists the numbers of repetitions to try when \<open>n\<close>
  characters in a row match the class: most first when greedy, fewest first when lazy.
\<close>

type_synonym mstate = "jsstring \<times> jsstring option"

definition repeat_counts :: "nat \<Rightarrow> nat option \<Rightarrow> bool \<Rightarrow> nat \<Rightarrow> nat list" where
  "repeat_counts lo hi greedy n =
     (let m = (case hi of None \<Rightarrow> n | Some h \<Rightarrow> min n h);
          ks = [lo ..< Suc m]
      in if greedy then rev ks else ks)"

fun match_re :: "bool \<Rightarrow> re \<Rightarrow> mstate \<Rightarrow> mstate list"
  and match_seq :: "bool \<Rightarrow> re list \<Rightarrow> mstate \<Rightarrow> mstate list" where
  "match_re ic (Atom c) (s, g) =
     (case s of [] \<Rightarrow> [] | d # r \<Rightarrow> if cls_match ic c d then [(r, g)] else [])"
| "match_re ic (Repeat c lo hi greedy) (s, g) =
     map (\<lambda>k. (drop k s, g))
       (repeat_counts lo hi greedy (length (takeWhile (cls_match ic c) s)))"
| "match_re ic (Capture rs) (s, g) =
     map (\<lambda>(r, _). (r, Some (take (length s - length r) s))) (match_seq ic rs (s, g))"
| "match_re ic (Alt as bs) st = match_seq ic as st @ match_seq ic bs st"
| "match_seq ic [] st = [st]"
| "match_seq ic (r # rs) st = concat (map (match_seq ic rs) (match_re ic r st))"

text \<open>
  The result of \<open>exec\<close>: where the match starts, the matched text (\<open>match[0]\<close>) and
  group 1 (\<open>match[1]\<close>, \<open>None\<close> for \<open>undefined\<close>). \<open>first_match\<close> is the result
  that backtracking reaches first from one start position; \<open>search\<close> tries the start
  positions from left to right.
\<close>

record match_result =
  index :: nat
  matched :: jsstring
  group1 :: "jsstring option"

definition first_match :: "bool \<Rightarrow> re list \<Rightarrow> mstate \<Rightarrow> mstate option" where
  "first_match ic rs st = (case match_seq ic rs st of [] \<Rightarrow> None | r # _ \<Rightarrow> Some r)"

fun search :: "bool \<Rightarrow> re list \<Rightarrow> nat \<Rightarrow> jsstring \<Rightarrow> match_result option" where
  "search ic rs i s =
     (case first_match ic rs (s, None) of
        Some (r, g) \<Rightarrow>
          Some \<lparr>index = i, matched = take (length s - length r) s, group1 = g\<rparr>
      | None \<Rightarrow> (case s of [] \<Rightarrow> None | _ # t \<Rightarrow> search ic rs (Suc i) t))"

declare search.simps [simp del]

definition regex_exec :: "regex \<Rightarrow> jsstring \<Rightarrow> match_result option" where
  "regex_exec rx s =
     (if anchored rx then
        (case first_match (ignoreCase rx) (body rx) (s, None) of
           Some (r, g) \<Rightarrow>
             Some \<lparr>index = 0, matched = take (length s - length r) s, group1 = g\<rparr>
         | None \<Rightarrow> None)
      else search (ignoreCase rx) (body rx) 0 s)"

text \<open>\<open>s.replace(rx, '')\<close> for a pattern without the \<open>g\<close> flag: the first match goes.\<close>

definition replace_first :: "regex \<Rightarrow> jsstring \<Rightarrow> jsstring" where
  "replace_first rx s =
     (case regex_exec rx s of
        None \<Rightarrow> s
      | Some m \<Rightarrow> take (index m) s @ drop (index m + length (matched m)) s)"

text \<open>
  \<open>s.match(rx)\<close> for a pattern with the \<open>g\<close> flag (and without \<open>^\<close>): the texts of all
  matches from left to right, each search starting where the last match ended (one
  further after an empty match); the empty list stands for \<open>null\<close>.
\<close>

function match_global :: "regex \<Rightarrow> jsstring \<Rightarrow> jsstring list" where
  "match_global rx s =
     (case regex_exec rx s of
        None \<Rightarrow> []
      | Some m \<Rightarrow>
          matched m #
            (case s of
               [] \<Rightarrow> []
             | _ # _ \<Rightarrow>
                 match_global rx
                   (drop (index m + length (matched m) + (if matched m = [] then 1 else 0)) s)))"
  by pat_completeness auto
termination
  by (relation "measure (\<lambda>(rx, s). length s)") (auto simp: Suc_le_eq)

declare match_global.simps [simp del]

text \<open>\<open>s.replace(/c/g, '')\<close> for a single literal character \<open>c\<close>.\<close>

definition remove_char :: "jschar \<Rightarrow> jsstring \<Rightarrow> jsstring" where
  "remove_char c s = filter (\<lambda>d. d \<noteq> c) s"

definition lits :: "string \<Rightarrow> re list" where
  "lits s = map (\<lambda>c. Atom (One (Chr (of_char c)))) s"

section \<open>extractTitleFromContent\<close>

text \<open>\<open>s.split('\n')\<close>.\<close>

fun split_lines :: "jsstring \<Rightarrow> jsstring list" where
  "split_lines [] = [[]]"
| "split_lines (c # cs) =
     (if c = 0x0A then [] # split_lines cs
      else (case split_lines cs of l # ls \<Rightarrow> (c # l) # ls | [] \<Rightarrow> [[c]]))"

text \<open>
  The fallback title: the word for "prompt", an underscore and
  \<open>new Date().toLocaleDateString()\<close>, which the environment gives.
\<close>

definition fallbackTitle :: "jsstring \<Rightarrow> jsstring" where
  "fallbackTitle today = [0x63D0, 0x793A, 0x8BCD, 0x5F] @ today"

text \<open>\<open>/<title[^>]*>(.*?)<\/title>/i\<close> and \<open>/^Role:\s*/i\<close>\<close>

definition rxTitle :: regex where
  "rxTitle = \<lparr>anchored = False, ignoreCase = True, body =
     lits ''<title'' @ [Repeat (NegClass [Chr 0x3E]) 0 None True, Atom (One (Chr 0x3E)),
       Capture [Repeat (One Dot) 0 None False]] @ lits ''</title>''\<rparr>"

definition rxRolePrefix :: regex where
  "rxRolePrefix = \<lparr>anchored = True, ignoreCase = True, body =
     lits ''Role:'' @ [Repeat (One Space) 0 None True]\<rparr>"

text \<open>
  \<open>/<\w+\s+ATTR=["']role["'][^>]*>([^<]+)/i\<close> for the attribute names title, name, id
  and type; \<open>/<section[^>]*>[\s\n]*role:?\s*([^<]+)/i\<close>; \<open>/<role[^>]*>([^<]+)/i\<close>.
\<close>

definition rxRoleAttr :: "string \<Rightarrow> regex" where
  "rxRoleAttr attr = \<lparr>anchored = False, ignoreCase = True, body =
     lits ''<'' @ [Repeat (One Word) 1 None True, Repeat (One Space) 1 None True] @
     lits attr @ lits ''='' @ [Atom (Class [Chr 0x22, Chr 0x27])] @ lits ''role'' @
     [Atom (Class [Chr 0x22, Chr 0x27]), Repeat (NegClass [Chr 0x3E]) 0 None True,
      Atom (One (Chr 0x3E)), Capture [Repeat (NegClass [Chr 0x3C]) 1 None True]]\<rparr>"

definition rxSection :: regex where
  "rxSection = \<lparr>anchored = False, ignoreCase = True, body =
     lits ''<section'' @ [Repeat (NegClass [Chr 0x3E]) 0 None True, Atom (One (Chr 0x3E)),
       Repeat (Class [Space, Chr 0x0A]) 0 None True] @ lits ''role'' @
     [Repeat (One (Chr 0x3A)) 0 (Some 1) True, Repeat (One Space) 0 None True,
      Capture [Repeat (NegClass [Chr 0x3C]) 1 None True]]\<rparr>"

definition rxRoleTag :: regex where
  "rxRoleTag = \<lparr>anchored = False, ignoreCase = True, body =
     lits ''<role'' @ [Repeat (NegClass [Chr 0x3E]) 0 None True, Atom (One (Chr 0x3E)),
       Capture [Repeat (NegClass [Chr 0x3C]) 1 None True]]\<rparr>"

definition rolePatterns :: "regex list" where
  "rolePatterns = [rxRoleAttr ''title'', rxRoleAttr ''name'', rxRoleAttr ''id'',
     rxRoleAttr ''type'', rxSection, rxRoleTag]"

text \<open>
  \<open>/^(role|XX)[:Y]\s*/i\<close>, where XX is the two-character word for "role"
  (U+89D2 U+8272) and Y the full-width colon (U+FF1A). Its group is not read.
\<close>

definition rxStripRole :: regex where
  "rxStripRole = \<lparr>anchored = True, ignoreCase = True, body =
     [Capture [Alt (lits ''role'') [Atom (One (Chr 0x89D2)), Atom (One (Chr 0x8272))]],
      Atom (Class [Chr 0x3A, Chr 0xFF1A]), Repeat (One Space) 0 None True]\<rparr>"

text \<open>\<open>/>([^<]+)</g\<close>\<close>

definition rxText :: regex where
  "rxText = \<lparr>anchored = False, ignoreCase = False, body =
     [Atom (One (Chr 0x3E)), Capture [Repeat (NegClass [Chr 0x3C]) 1 None True],
      Atom (One (Chr 0x3C))]\<rparr>"

text \<open>\<open>/^#{1,6}\s*/\<close>, \<open>/^\*+\s*/\<close>, \<open>/^-+\s*/\<close>, \<open>/^\d+\.\s*/\<close>\<close>

definition rxHeading :: regex where
  "rxHeading = \<lparr>anchored = True, ignoreCase = False, body =
     [Repeat (One (Chr 0x23)) 1 (Some 6) True, Repeat (One Space) 0 None True]\<rparr>"

definition rxStars :: regex where
  "rxStars = \<lparr>anchored = True, ignoreCase = False, body =
     [Repeat (One (Chr 0x2A)) 1 None True, Repeat (One Space) 0 None True]\<rparr>"

definition rxDashes :: regex where
  "rxDashes = \<lparr>anchored = True, ignoreCase = False, body =
     [Repeat (One (Chr 0x2D)) 1 None True, Repeat (One Space) 0 None True]\<rparr>"

definition rxNumbered :: regex where
  "rxNumbered = \<lparr>anchored = True, ignoreCase = False, body =
     [Repeat (One Digit) 1 None True, Atom (One (Chr 0x2E)),
      Repeat (One Space) 0 None True]\<rparr>"

text \<open>Step 1 of the markup path: the \<open><title>\<close> element.\<close>

definition titleFromTitleTag :: "jsstring \<Rightarrow> jsstring" where
  "titleFromTitleTag content =
     (case regex_exec rxTitle content of
        None \<Rightarrow> []
      | Some titleMatch \<Rightarrow>
          (case group1 titleMatch of
             None \<Rightarrow> []
           | Some g \<Rightarrow> if g \<noteq> [] then trim (replace_first rxRolePrefix (trim g)) else []))"

text \<open>
  Step 2: the loop over \<open>rolePatterns\<close>; \<open>autoTitle\<close> is the variable of that name,
  and the loop is left as soon as it is not empty.
\<close>

definition cleanRole :: "jsstring \<Rightarrow> jsstring" where
  "cleanRole g = trim (replace_first rxStripRole (trim g))"

fun rolePatternLoop :: "regex list \<Rightarrow> jsstring \<Rightarrow> jsstring \<Rightarrow> jsstring" where
  "rolePatternLoop [] content autoTitle = autoTitle"
| "rolePatternLoop (pattern # ps) content autoTitle =
     (case regex_exec pattern content of
        None \<Rightarrow> rolePatternLoop ps content autoTitle
      | Some m \<Rightarrow>
          (case group1 m of
             None \<Rightarrow> rolePatternLoop ps content autoTitle
           | Some g \<Rightarrow>
               if g \<noteq> [] then
                 (if cleanRole g \<noteq> [] then cleanRole g
                  else rolePatternLoop ps content (cleanRole g))
               else rolePatternLoop ps content autoTitle))"

text \<open>Step 3: the first element of the global match, with \<open>>\<close> and \<open><\<close> removed.\<close>

definition titleFromText :: "jsstring \<Rightarrow> jsstring \<Rightarrow> jsstring" where
  "titleFromText content autoTitle =
     (case match_global rxText content of
        [] \<Rightarrow> autoTitle
      | m0 # _ \<Rightarrow>
          if m0 \<noteq> [] then trim (remove_char 0x3C (remove_char 0x3E m0)) else autoTitle)"

definition xmlTitle :: "jsstring \<Rightarrow> jsstring" where
  "xmlTitle content =
     (let t1 = titleFromTitleTag content;
          t2 = (if t1 = [] then rolePatternLoop rolePatterns content t1 else t1)
      in if t2 = [] then titleFromText content t2 else t2)"

text \<open>The plain-text path: the loop over the lines.\<close>

definition stripMarkers :: "jsstring \<Rightarrow> jsstring" where
  "stripMarkers trimmedLine =
     trim (replace_first rxNumbered (replace_first rxDashes
       (replace_first rxStars (replace_first rxHeading trimmedLine))))"

fun markdownLoop :: "jsstring list \<Rightarrow> jsstring \<Rightarrow> jsstring" where
  "markdownLoop [] autoTitle = autoTitle"
| "markdownLoop (line # lines) autoTitle =
     (let trimmedLine = trim line in
      if trimmedLine \<noteq> [] then
        (if startsWith trimmedLine (js ''# Role:'') then
           (let roleContent = trim (substring_from trimmedLine 8) in
            if roleContent \<noteq> [] then roleContent
            else markdownLoop lines autoTitle)
         else
           (if stripMarkers trimmedLine \<noteq> [] then stripMarkers trimmedLine
            else markdownLoop lines (stripMarkers trimmedLine)))
      else markdownLoop lines autoTitle)"

text \<open>
  \<open>heuristicTitle\<close> is \<open>autoTitle\<close> after the two paths, \<open>chosenTitle\<close> after the
  default has replaced an empty one, \<open>limitTitle\<close> the length limit at the end.
\<close>

definition heuristicTitle :: "jsstring \<Rightarrow> jsstring" where
  "heuristicTitle content =
     (if startsWith (trim content) (js ''<'') then xmlTitle content
      else markdownLoop (split_lines (trim content)) [])"

definition chosenTitle :: "jsstring \<Rightarrow> jsstring \<Rightarrow> jsstring" where
  "chosenTitle today content =
     (if heuristicTitle content = [] then fallbackTitle today else heuristicTitle content)"

definition limitTitle :: "jsstring \<Rightarrow> jsstring" where
  "limitTitle autoTitle =
     (if length autoTitle > 50 then substring_to autoTitle 50 @ js ''...'' else autoTitle)"

definition extractTitleFromContent :: "jsstring \<Rightarrow> jsstring \<Rightarrow> jsstring" where
  "extractTitleFromContent today content =
     (if trim content = [] then fallbackTitle today
      else limitTitle (chosenTitle today content))"

text \<open>
  The title before the length limit: what the early return gives for blank content, and
  \<open>autoTitle\<close> just before the limit otherwise.
\<close>

definition extractedTitle :: "jsstring \<Rightarrow> jsstring \<Rightarrow> jsstring" where
  "extractedTitle today content =
     (if trim content = [] then fallbackTitle today else chosenTitle today content)"

text \<open>
  What one round of the loop over \<open>rolePatterns\<close> gives for its pattern, and the first
  non-empty one in the order of the list.
\<close>

definition roleTitleOf :: "regex \<Rightarrow> jsstring \<Rightarrow> jsstring" where
  "roleTitleOf pattern content =
     (case regex_exec pattern content of
        None \<Rightarrow> []
      | Some m \<Rightarrow>
          (case group1 m of
             None \<Rightarrow> []
           | Some g \<Rightarrow> if g \<noteq> [] then cleanRole g else []))"

fun firstRoleTitle :: "regex list \<Rightarrow> jsstring \<Rightarrow> jsstring" where
  "firstRoleTitle [] content = []"
| "firstRoleTitle (pattern # ps) content =
     (if roleTitleOf pattern content \<noteq> [] then roleTitleOf pattern content
      else firstRoleTitle ps content)"

section \<open>Tags\<close>

record tag_form =
  tags :: "jsstring list"
  newTag :: jsstring

definition addTag :: "tag_form \<Rightarrow> tag_form" where
  "addTag f =
     (let tag = trim (newTag f) in
      if tag \<noteq> [] \<and> tag \<notin> set (tags f) \<and> length (tags f) < 10
      then f\<lparr>tags := tags f @ [tag], newTag := []\<rparr>
      else f)"

definition removeTag :: "jsstring \<Rightarrow> tag_form \<Rightarrow> tag_form" where
  "removeTag tag f = f\<lparr>tags := filter (\<lambda>t. t \<noteq> tag) (tags f)\<rparr>"

text \<open>
  What the user can do to the tag form: type into the input bound to \<open>newTag\<close>, press
  the add button (or Enter), press the remove button of a tag.
\<close>

datatype tag_event = TypeNewTag jsstring | AddTag | RemoveTag jsstring

fun tag_step :: "tag_form \<Rightarrow> tag_event \<Rightarrow> tag_form" where
  "tag_step f (TypeNewTag s) = f\<lparr>newTag := s\<rparr>"
| "tag_step f AddTag = addTag f"
| "tag_step f (RemoveTag t) = removeTag t f"

definition tag_run :: "tag_form \<Rightarrow> tag_event list \<Rightarrow> tag_form" where
  "tag_run f es = foldl tag_step f es"

definition initial_tags :: tag_form where
  "initial_tags = \<lparr>tags = [], newTag = []\<rparr>"

definition blank :: "jsstring \<Rightarrow> bool" where
  "blank s = (\<forall>c \<in> set s. isWhiteSpace c)"

definition tags_ok :: "jsstring list \<Rightarrow> bool" where
  "tags_ok ts = (distinct ts \<and> (\<forall>t \<in> set ts. \<not> blank t) \<and> length ts \<le> 10)"

section \<open>Well-formed turns\<close>

text \<open>
  The specification's reading of a conversation turn, to compare the validator with: the
  element has a truthy \<open>role\<close> field whose value is one of user, assistant and system,
  and a truthy \<open>content\<close> field. Only an object has fields.
\<close>

fun field :: "json \<Rightarrow> jsstring \<Rightarrow> json option" where
  "field (JObject kvs) k = map_of kvs k"
| "field _ k = None"

definition missingField :: "json \<Rightarrow> bool" where
  "missingField x =
     (\<not> truthy_value (field x (js ''role'')) \<or> \<not> truthy_value (field x (js ''content'')))"

definition wellFormedTurn :: "json \<Rightarrow> bool" where
  "wellFormedTurn x =
     (truthy_value (field x (js ''role'')) \<and>
      field x (js ''role'') \<in> {Some (JString (js ''user'')), Some (JString (js ''assistant'')),
                              Some (JString (js ''system''))} \<and>
      truthy_value (field x (js ''content'')))"

section \<open>A sample platform\<close>

text \<open>
  A parser and a serialiser that know a few inputs, to run the functions on: a valid
  history, one with a \<open>null\<close> element, one with a wrong role, an object, and anything
  else as a syntax error.
\<close>

definition exampleParser :: json_parser where
  "exampleParser s =
     (if s = js ''[{\"role\":\"user\",\"content\":\"hi\"}]'' then
        Inr (JArray [JObject [(js ''role'', JString (js ''user'')), (js ''content'', JString (js ''hi''))]])
      else if s = js ''[{\"role\":\"user\",\"content\":\"hi\"},null,{\"role\":\"bogus\"}]'' then
        Inr (JArray [JObject [(js ''role'', JString (js ''user'')), (js ''content'', JString (js ''hi''))],
               JNull, JObject [(js ''role'', JString (js ''bogus''))]])
      else if s = js ''[{\"role\":\"bogus\",\"content\":\"x\"}]'' then
        Inr (JArray [JObject [(js ''role'', JString (js ''bogus'')), (js ''content'', JString (js ''x''))]])
      else if s = js ''{\"not\":\"an array\"}'' then
        Inr (JObject [(js ''not'', JString (js ''an array''))])
      else Inl (js ''Unexpected token'')) "


section \<open>Whitespace and trimming\<close>

lemma dropWhile_all_iff:
  "(\<forall>c \<in> set (dropWhile P s). P c) \<longleftrightarrow> (\<forall>c \<in> set s. P c)"
  by (induction s) auto

lemma trim_empty_iff: "trim s = [] \<longleftrightarrow> blank s"
proof -
  have "trim s = [] \<longleftrightarrow> dropWhile isWhiteSpace (rev (dropWhile isWhiteSpace s)) = []"
    by (simp add: trim_def)
  also have "\<dots> \<longleftrightarrow> (\<forall>c \<in> set (dropWhile isWhiteSpace s). isWhiteSpace c)"
    by (simp only: dropWhile_eq_Nil_conv set_rev)
  also have "\<dots> \<longleftrightarrow> blank s"
    by (simp only: dropWhile_all_iff blank_def)
  finally show ?thesis .
qed

lemma trim_last_not_space:
  assumes "trim s \<noteq> []"
  shows "\<not> isWhiteSpace (last (trim s))"
proof -
  let ?r = "dropWhile isWhiteSpace (rev (dropWhile isWhiteSpace s))"
  from assms have ne: "?r \<noteq> []" by (simp add: trim_def)
  then have "\<not> isWhiteSpace (hd ?r)" by (rule hd_dropWhile)
  moreover have "last (trim s) = hd ?r"
    using ne by (simp add: trim_def last_rev)
  ultimately show ?thesis by simp
qed

lemma trim_not_blank: "trim s \<noteq> [] \<Longrightarrow> \<not> blank (trim s)"
  using trim_last_not_space [of s] last_in_set [of "trim s"]
  by (auto simp: blank_def)

section \<open>The tag list\<close>

lemma addTag_ok: "tags_ok (tags f) \<Longrightarrow> tags_ok (tags (addTag f))"
  using trim_not_blank [of "newTag f"]
  by (auto simp: addTag_def tags_ok_def Let_def)

lemma removeTag_ok: "tags_ok (tags f) \<Longrightarrow> tags_ok (tags (removeTag t f))"
proof -
  assume ok: "tags_ok (tags f)"
  have "length (filter (\<lambda>u. u \<noteq> t) (tags f)) \<le> length (tags f)"
    by (rule length_filter_le)
  also have "\<dots> \<le> 10"
    using ok by (simp add: tags_ok_def)
  finally have "length (filter (\<lambda>u. u \<noteq> t) (tags f)) \<le> 10" .
  with ok show ?thesis
    by (simp add: removeTag_def tags_ok_def)
qed

lemma tag_step_ok: "tags_ok (tags f) \<Longrightarrow> tags_ok (tags (tag_step f e))"
  by (cases e) (simp_all add: addTag_ok removeTag_ok)

lemma tag_run_ok: "tags_ok (tags f) \<Longrightarrow> tags_ok (tags (tag_run f es))"
  unfolding tag_run_def
  by (induction es arbitrary: f) (simp_all add: tag_step_ok)

lemma addTag_rejected:
  "blank (newTag f) \<or> trim (newTag f) \<in> set (tags f) \<or> 10 \<le> length (tags f)
   \<Longrightarrow> addTag f = f"
  using trim_empty_iff [of "newTag f"]
  by (auto simp: addTag_def Let_def)

text \<open>
  Claim C9. Whatever the user types, adds and removes, starting from the empty tag list,
  the list has no duplicates, no blank entry and at most ten entries; and \<open>addTag\<close>
  changes nothing when the new tag is blank, is already in the list, or ten tags are
  there.
\<close>

theorem tags_invariant:
  "tags_ok (tags (tag_run initial_tags es)) \<and>
   (\<forall>f. blank (newTag f) \<or> trim (newTag f) \<in> set (tags f) \<or> 10 \<le> length (tags f)
        \<longrightarrow> addTag f = f)"
proof -
  have "tags_ok (tags initial_tags)"
    by (simp add: initial_tags_def tags_ok_def)
  then show ?thesis
    using tag_run_ok addTag_rejected by blast
qed

theorem tags_invariant_witness:
  "tags (tag_run initial_tags
      [TypeNewTag (js '' a ''), AddTag, TypeNewTag (js ''a''), AddTag,
       TypeNewTag (js ''b''), AddTag, RemoveTag (js ''a'')]) = [js ''b''] \<and>
   tags_ok [js ''b''] \<and>
   trim (newTag \<lparr>tags = [js ''b''], newTag = js ''b ''\<rparr>)
     \<in> set (tags \<lparr>tags = [js ''b''], newTag = js ''b ''\<rparr>) \<and>
   addTag \<lparr>tags = [js ''b''], newTag = js ''b ''\<rparr> = \<lparr>tags = [js ''b''], newTag = js ''b ''\<rparr>"
proof -
  let ?es = "[TypeNewTag (js '' a ''), AddTag, TypeNewTag (js ''a''), AddTag,
       TypeNewTag (js ''b''), AddTag, RemoveTag (js ''a'')]"
  let ?f = "\<lparr>tags = [js ''b''], newTag = js ''b ''\<rparr>"
  have run: "tags (tag_run initial_tags ?es) = [js ''b'']"
    by (simp add: tag_run_def initial_tags_def addTag_def removeTag_def trim_def js_def
        isWhiteSpace_def Let_def)
  have dup: "trim (newTag ?f) \<in> set (tags ?f)"
    by (simp add: trim_def js_def isWhiteSpace_def)
  from tags_invariant [of ?es] run dup show ?thesis
    by auto
qed

section \<open>The validator\<close>

lemma msgMissing_nonempty: "msgMissing n \<noteq> []"
  by (simp add: msgMissing_def)

lemma msgRole_nonempty: "msgRole n \<noteq> []"
  by (simp add: msgRole_def)

lemma msgNotArray_nonempty: "msgNotArray \<noteq> []"
  by (simp add: msgNotArray_def)

lemma msgJsonFormat_nonempty: "msgJsonFormat \<noteq> []"
  by (simp add: msgJsonFormat_def js_def)

lemma catchMessage_nonempty: "catchMessage m \<noteq> []"
  by (simp add: catchMessage_def msgJsonFormat_nonempty)


text \<open>After \<open>parsed[i] || {}\<close> the property reads are those of the specification's \<open>field\<close>.\<close>

lemma readProp_item:
  "readProp (if truthy x then x else JObject []) k = Inr (field x k)"
  by (cases x) simp_all

lemma allowedRoles_set:
  "set allowedRoles = {Some (JString (js ''user'')), Some (JString (js ''assistant'')),
     Some (JString (js ''system''))}"
  by (simp add: allowedRoles_def)

lemma checkItems_Cons:
  "checkItems i (x # xs) =
     (if missingField x then Inr (msgMissing (i + 1))
      else if \<not> wellFormedTurn x then Inr (msgRole (i + 1))
      else checkItems (i + 1) xs)"
  by (simp only: checkItems.simps Let_def readProp_item sum.case missingField_def
      wellFormedTurn_def allowedRoles_set) auto

lemma checkItems_never_throws: "\<exists>r. checkItems i xs = Inr r"
  by (induction xs arbitrary: i) (simp_all only: checkItems.simps(1) checkItems_Cons, auto)

lemma missingField_not_wellFormed: "missingField x \<Longrightarrow> \<not> wellFormedTurn x"
  by (auto simp: missingField_def wellFormedTurn_def)

lemma checkItems_all_wellFormed:
  "(\<forall>x \<in> set xs. wellFormedTurn x) \<Longrightarrow> checkItems i xs = Inr []"
proof (induction xs arbitrary: i)
  case Nil
  show ?case by simp
next
  case (Cons x xs)
  then have "wellFormedTurn x" and "checkItems (i + 1) xs = Inr []" by simp_all
  then show ?case
    using missingField_not_wellFormed [of x] by (simp only: checkItems_Cons) auto
qed

lemma checkItems_first_violation:
  "k < length xs \<Longrightarrow> (\<forall>j < k. wellFormedTurn (xs ! j)) \<Longrightarrow> \<not> wellFormedTurn (xs ! k) \<Longrightarrow>
   checkItems i xs =
     Inr (if missingField (xs ! k) then msgMissing (i + k + 1) else msgRole (i + k + 1))"
proof (induction xs arbitrary: i k)
  case Nil
  then show ?case by simp
next
  case (Cons x xs)
  show ?case
  proof (cases k)
    case 0
    with Cons.prems show ?thesis
      by (simp only: checkItems_Cons) simp
  next
    case (Suc k')
    from Cons.prems Suc have wf: "wellFormedTurn x" by auto
    from Cons.prems Suc have "k' < length xs" "\<forall>j < k'. wellFormedTurn (xs ! j)"
      "\<not> wellFormedTurn (xs ! k')" by auto
    then have "checkItems (i + 1) xs =
       Inr (if missingField (xs ! k') then msgMissing (i + 1 + k' + 1) else msgRole (i + 1 + k' + 1))"
      by (rule Cons.IH)
    with wf Suc show ?thesis
      using missingField_not_wellFormed [of x]
      by (simp only: checkItems_Cons) auto
  qed
qed

lemma checkItems_empty_iff:
  "checkItems i xs = Inr [] \<longleftrightarrow> (\<forall>x \<in> set xs. wellFormedTurn x)"
proof
  assume r: "checkItems i xs = Inr []"
  show "\<forall>x \<in> set xs. wellFormedTurn x"
  proof (rule ccontr)
    assume "\<not> (\<forall>x \<in> set xs. wellFormedTurn x)"
    then have ex: "\<exists>k. k < length xs \<and> \<not> wellFormedTurn (xs ! k)"
      by (auto simp: in_set_conv_nth)
    define k where "k = (LEAST k. k < length xs \<and> \<not> wellFormedTurn (xs ! k))"
    from ex have k: "k < length xs \<and> \<not> wellFormedTurn (xs ! k)"
      unfolding k_def by (rule LeastI_ex)
    have "\<forall>j < k. wellFormedTurn (xs ! j)"
    proof (intro allI impI)
      fix j assume "j < k"
      then have "\<not> (j < length xs \<and> \<not> wellFormedTurn (xs ! j))"
        unfolding k_def by (rule not_less_Least)
      moreover from \<open>j < k\<close> k have "j < length xs" by simp
      ultimately show "wellFormedTurn (xs ! j)" by simp
    qed
    with k have "checkItems i xs =
       Inr (if missingField (xs ! k) then msgMissing (i + k + 1) else msgRole (i + k + 1))"
      by (simp add: checkItems_first_violation)
    with r show False
      by (auto simp: msgMissing_nonempty msgRole_nonempty split: if_splits)
  qed
next
  assume "\<forall>x \<in> set xs. wellFormedTurn x"
  then show "checkItems i xs = Inr []" by (rule checkItems_all_wellFormed)
qed

lemma example_turns:
  "wellFormedTurn (JObject [(js ''role'', JString (js ''user'')), (js ''content'', JString (js ''hi''))])"
  "\<not> wellFormedTurn JNull" "missingField JNull"
  "\<not> wellFormedTurn (JObject [(js ''role'', JString (js ''bogus'')), (js ''content'', JString (js ''x''))])"
  "\<not> missingField (JObject [(js ''role'', JString (js ''bogus'')), (js ''content'', JString (js ''x''))])"
  by (simp_all add: wellFormedTurn_def missingField_def js_def)

lemma example_inputs:
  "exampleParser (js ''[{\"role\":\"user\",\"content\":\"hi\"},null,{\"role\":\"bogus\"}]'') =
     Inr (JArray [JObject [(js ''role'', JString (js ''user'')), (js ''content'', JString (js ''hi''))],
               JNull, JObject [(js ''role'', JString (js ''bogus''))]])"
  "exampleParser (js ''[{\"role\":\"bogus\",\"content\":\"x\"}]'') =
     Inr (JArray [JObject [(js ''role'', JString (js ''bogus'')), (js ''content'', JString (js ''x''))]])"
  "exampleParser (js ''{\"not\":\"an array\"}'') = Inr (JObject [(js ''not'', JString (js ''an array''))])"
  "exampleParser (js ''[{'') = Inl (js ''Unexpected token'')"
  "\<not> blank (js ''[{\"role\":\"user\",\"content\":\"hi\"},null,{\"role\":\"bogus\"}]'')"
  "\<not> blank (js ''[{\"role\":\"bogus\",\"content\":\"x\"}]'')"
  "\<not> blank (js ''{\"not\":\"an array\"}'')"
  "\<not> blank (js ''[{'')"
  by (simp_all add: exampleParser_def js_def blank_def isWhiteSpace_def)

lemma falsy_missingField: "\<not> truthy x \<Longrightarrow> missingField x"
  by (cases x) (simp_all add: missingField_def)

text \<open>
  Claim C1. \<open>validateConversationJson\<close> returns the empty string exactly when the input
  is blank, or parses as an array all of whose elements have a truthy \<open>role\<close> that is
  user, assistant or system and a truthy \<open>content\<close>; on every other input the result
  is a non-empty error string.
\<close>

theorem validate_accepts_iff:
  "validateConversationJson JSON_parse raw = [] \<longleftrightarrow>
     (blank raw \<or>
      (\<exists>items. JSON_parse raw = Inr (JArray items) \<and> (\<forall>x \<in> set items. wellFormedTurn x)))"
proof (cases "blank raw")
  case True
  then show ?thesis
    by (simp add: validateConversationJson_def trim_empty_iff)
next
  case False
  note nb = False
  show ?thesis
  proof (cases "JSON_parse raw")
    case (Inl e)
    with nb show ?thesis
      by (simp add: validateConversationJson_def trim_empty_iff catchMessage_nonempty)
  next
    case (Inr v)
    show ?thesis
    proof (cases "\<exists>items. v = JArray items")
      case True
      then obtain items where v: "v = JArray items" by blast
      obtain r where r: "checkItems 0 items = Inr r"
        using checkItems_never_throws by blast
      have "r = [] \<longleftrightarrow> (\<forall>x \<in> set items. wellFormedTurn x)"
        using checkItems_empty_iff [of 0 items] r by simp
      with nb Inr v r show ?thesis
        by (simp add: validateConversationJson_def trim_empty_iff)
    next
      case False
      with nb Inr show ?thesis
        by (cases v) (simp_all add: validateConversationJson_def trim_empty_iff msgNotArray_nonempty)
    qed
  qed
qed


theorem validate_accepts_iff_witness:
  "validateConversationJson exampleParser (js ''[{\"role\":\"user\",\"content\":\"hi\"}]'') = [] \<and>
   wellFormedTurn (JObject [(js ''role'', JString (js ''user'')), (js ''content'', JString (js ''hi''))]) \<and>
   validateConversationJson exampleParser (js ''{\"not\":\"an array\"}'') \<noteq> []"
proof -
  have wf: "\<forall>x \<in> set [JObject [(js ''role'', JString (js ''user'')), (js ''content'', JString (js ''hi''))]].
      wellFormedTurn x"
    by (simp add: wellFormedTurn_def js_def)
  have p1: "exampleParser (js ''[{\"role\":\"user\",\"content\":\"hi\"}]'') =
      Inr (JArray [JObject [(js ''role'', JString (js ''user'')), (js ''content'', JString (js ''hi''))]])"
    by (simp add: exampleParser_def)
  have p2: "exampleParser (js ''{\"not\":\"an array\"}'') = Inr (JObject [(js ''not'', JString (js ''an array''))])"
    by (simp add: exampleParser_def js_def)
  have nb: "\<not> blank (js ''{\"not\":\"an array\"}'')"
    by (simp add: js_def blank_def isWhiteSpace_def)
  from wf p1 have "validateConversationJson exampleParser (js ''[{\"role\":\"user\",\"content\":\"hi\"}]'') = []"
    using validate_accepts_iff [of exampleParser "js ''[{\"role\":\"user\",\"content\":\"hi\"}]''"]
    by blast
  moreover from p2 nb have "validateConversationJson exampleParser (js ''{\"not\":\"an array\"}'') \<noteq> []"
    using validate_accepts_iff [of exampleParser "js ''{\"not\":\"an array\"}''"]
    by simp
  ultimately show ?thesis using wf by simp
qed

subsection \<open>The index in the messages\<close>

lemma digit_char:
  assumes "m < 10"
  shows "isDecimalDigit (0x30 + of_nat m) \<and> unat ((0x30 + of_nat m :: jschar) - 0x30) = m \<and>
         (m = 0 \<or> (0x30 + of_nat m :: jschar) \<noteq> 0x30)"
proof -
  from assms have "m = 0 \<or> m = 1 \<or> m = 2 \<or> m = 3 \<or> m = 4 \<or> m = 5 \<or> m = 6 \<or> m = 7 \<or>
      m = 8 \<or> m = 9"
    by arith
  then show ?thesis
    by (elim disjE) (simp_all add: isDecimalDigit_def)
qed

lemma decimal_value_snoc:
  "decimal_value (ds @ [c]) = 10 * decimal_value ds + unat (c - 0x30)"
  by (simp add: decimal_value_def)

lemma decimal_small: "n < 10 \<Longrightarrow> decimal n = [0x30 + of_nat n]"
  by (subst decimal.simps) simp

lemma decimal_large:
  "\<not> n < 10 \<Longrightarrow> decimal n = decimal (n div 10) @ [0x30 + of_nat (n mod 10)]"
  by (subst decimal.simps) simp

text \<open>\<open>decimal n\<close> is the decimal numeral of \<open>n\<close>: digits only, of value \<open>n\<close>, no leading zero.\<close>

lemma decimal_numeral:
  "decimal n \<noteq> [] \<and> list_all isDecimalDigit (decimal n) \<and> decimal_value (decimal n) = n \<and>
   (n = 0 \<or> hd (decimal n) \<noteq> 0x30)"
proof (induction n rule: decimal.induct)
  case (1 n)
  show ?case
  proof (cases "n < 10")
    case True
    with digit_char [of n] show ?thesis
      by (simp add: decimal_small decimal_value_def)
  next
    case False
    then have pos: "n div 10 \<noteq> 0" by simp
    have m: "n mod 10 < 10" by simp
    from False "1.IH" pos have ih: "decimal (n div 10) \<noteq> []"
      "list_all isDecimalDigit (decimal (n div 10))"
      "decimal_value (decimal (n div 10)) = n div 10" "hd (decimal (n div 10)) \<noteq> 0x30"
      by simp_all
    have "decimal_value (decimal n) = 10 * (n div 10) + n mod 10"
      using False ih(3) digit_char [OF m] by (simp add: decimal_large decimal_value_snoc)
    then have "decimal_value (decimal n) = n" by simp
    moreover have "list_all isDecimalDigit (decimal n)"
      using False ih(2) digit_char [OF m] by (simp add: decimal_large)
    moreover have "decimal n \<noteq> []" "hd (decimal n) \<noteq> 0x30"
      using False ih(1,4) by (simp_all add: decimal_large)
    ultimately show ?thesis by simp
  qed
qed

lemma decimal_index:
  "decimal (k + 1) \<noteq> [] \<and> list_all isDecimalDigit (decimal (k + 1)) \<and>
   decimal_value (decimal (k + 1)) = k + 1 \<and> hd (decimal (k + 1)) \<noteq> 0x30"
  using decimal_numeral [of "k + 1"] by simp

text \<open>
  Claim C4. On an input that is not blank, the error is that of the first violation: the
  parser's message (the generic one when it is empty) before the array-shape error before
  the errors of the elements; the elements are checked in order, a missing role or
  content before the value of the role; and the message of element \<open>k\<close> is the ordinal
  mark, the decimal numeral of \<open>k + 1\<close> (digits only, of that value, no leading zero) and
  the text of the violation.
\<close>

theorem validate_reports_first_violation:
  assumes "\<not> blank raw"
  shows "(\<forall>e. JSON_parse raw = Inl e \<longrightarrow>
            validateConversationJson JSON_parse raw = (if e \<noteq> [] then e else js ''JSON'' @ [0x683C, 0x5F0F, 0x9519, 0x8BEF])) \<and>
         (\<forall>v. JSON_parse raw = Inr v \<and> (\<forall>items. v \<noteq> JArray items) \<longrightarrow>
            validateConversationJson JSON_parse raw = [0x5FC5, 0x987B, 0x662F, 0x6570, 0x7EC4, 0x683C, 0x5F0F]) \<and>
         (\<forall>items k. JSON_parse raw = Inr (JArray items) \<and> k < length items \<and>
              (\<forall>j < k. wellFormedTurn (items ! j)) \<and> \<not> wellFormedTurn (items ! k) \<longrightarrow>
            validateConversationJson JSON_parse raw =
              [0x7B2C] @ decimal (k + 1) @
                (if missingField (items ! k)
                 then [0x6761, 0x6D88, 0x606F, 0x7F3A, 0x5C11] @ js ''role'' @ [0x6216] @ js ''content'' @
                   [0x5B57, 0x6BB5]
                 else [0x6761, 0x6D88, 0x606F, 0x7684] @ js ''role'' @ [0x5FC5, 0x987B, 0x662F] @
                   js ''user'' @ [0x3001] @ js ''assistant'' @ [0x6216] @ js ''system'') \<and>
            decimal (k + 1) \<noteq> [] \<and> list_all isDecimalDigit (decimal (k + 1)) \<and>
            decimal_value (decimal (k + 1)) = k + 1 \<and> hd (decimal (k + 1)) \<noteq> 0x30)"
proof (intro conjI allI impI)
  fix e assume "JSON_parse raw = Inl e"
  with assms show "validateConversationJson JSON_parse raw = (if e \<noteq> [] then e else js ''JSON'' @ [0x683C, 0x5F0F, 0x9519, 0x8BEF])"
    by (simp add: validateConversationJson_def trim_empty_iff catchMessage_def msgJsonFormat_def)
next
  fix v assume "JSON_parse raw = Inr v \<and> (\<forall>items. v \<noteq> JArray items)"
  with assms show "validateConversationJson JSON_parse raw = [0x5FC5, 0x987B, 0x662F, 0x6570, 0x7EC4, 0x683C, 0x5F0F]"
    by (cases v) (simp_all add: validateConversationJson_def trim_empty_iff msgNotArray_def)
next
  fix items k
  assume h: "JSON_parse raw = Inr (JArray items) \<and> k < length items \<and>
              (\<forall>j < k. wellFormedTurn (items ! j)) \<and> \<not> wellFormedTurn (items ! k)"
  then have "checkItems 0 items =
      Inr (if missingField (items ! k) then msgMissing (0 + k + 1) else msgRole (0 + k + 1))"
    by (intro checkItems_first_violation) simp_all
  with assms h have "validateConversationJson JSON_parse raw =
      (if missingField (items ! k) then msgMissing (k + 1) else msgRole (k + 1))"
    by (simp add: validateConversationJson_def trim_empty_iff)
  then show "validateConversationJson JSON_parse raw =
              [0x7B2C] @ decimal (k + 1) @
                (if missingField (items ! k)
                 then [0x6761, 0x6D88, 0x606F, 0x7F3A, 0x5C11] @ js ''role'' @ [0x6216] @ js ''content'' @
                   [0x5B57, 0x6BB5]
                 else [0x6761, 0x6D88, 0x606F, 0x7684] @ js ''role'' @ [0x5FC5, 0x987B, 0x662F] @
                   js ''user'' @ [0x3001] @ js ''assistant'' @ [0x6216] @ js ''system'')"
    by (simp add: msgMissing_def msgRole_def)
next
  fix items k show "decimal (k + 1) \<noteq> []" using decimal_index [of k] by blast
next
  fix items k show "list_all isDecimalDigit (decimal (k + 1))" using decimal_index [of k] by blast
next
  fix items k show "decimal_value (decimal (k + 1)) = k + 1" using decimal_index [of k] by blast
next
  fix items k show "hd (decimal (k + 1)) \<noteq> 0x30" using decimal_index [of k] by blast
qed

theorem validate_reports_first_violation_witness:
  "validateConversationJson exampleParser (js ''[{'') = js ''Unexpected token'' \<and>
   validateConversationJson exampleParser (js ''{\"not\":\"an array\"}'') = [0x5FC5, 0x987B, 0x662F, 0x6570, 0x7EC4, 0x683C, 0x5F0F] \<and>
   validateConversationJson exampleParser
     (js ''[{\"role\":\"user\",\"content\":\"hi\"},null,{\"role\":\"bogus\"}]'') =
     [0x7B2C, 0x32, 0x6761, 0x6D88, 0x606F, 0x7F3A, 0x5C11] @ js ''role'' @ [0x6216] @
     js ''content'' @ [0x5B57, 0x6BB5] \<and>
   validateConversationJson exampleParser (js ''[{\"role\":\"bogus\",\"content\":\"x\"}]'') =
     [0x7B2C, 0x31, 0x6761, 0x6D88, 0x606F, 0x7684] @ js ''role'' @ [0x5FC5, 0x987B, 0x662F] @
     js ''user'' @ [0x3001] @ js ''assistant'' @ [0x6216] @ js ''system'' \<and>
   decimal 12 = [0x31, 0x32] \<and> decimal_value [0x31, 0x32] = 12"
proof -
  have a: "validateConversationJson exampleParser (js ''[{'') = js ''Unexpected token''"
    using validate_reports_first_violation [of "js ''[{''" exampleParser] example_inputs(4,8)
    by (simp add: js_def)
  have b: "validateConversationJson exampleParser (js ''{\"not\":\"an array\"}'') = [0x5FC5, 0x987B, 0x662F, 0x6570, 0x7EC4, 0x683C, 0x5F0F]"
    using validate_reports_first_violation [of "js ''{\"not\":\"an array\"}''" exampleParser]
      example_inputs(3,7)
    by simp
  let ?items = "[JObject [(js ''role'', JString (js ''user'')), (js ''content'', JString (js ''hi''))],
               JNull, JObject [(js ''role'', JString (js ''bogus''))]]"
  have pre: "\<forall>j < 1. wellFormedTurn (?items ! j)"
    using example_turns(1) by simp
  have d2: "decimal (Suc (Suc 0)) = [0x32]" "decimal (Suc 0) = [0x31]" "decimal 12 = [0x31, 0x32]"
    by (simp_all add: decimal.simps)
  have c: "validateConversationJson exampleParser
     (js ''[{\"role\":\"user\",\"content\":\"hi\"},null,{\"role\":\"bogus\"}]'') =
     [0x7B2C, 0x32, 0x6761, 0x6D88, 0x606F, 0x7F3A, 0x5C11] @ js ''role'' @ [0x6216] @
     js ''content'' @ [0x5B57, 0x6BB5]"
    using validate_reports_first_violation
      [of "js ''[{\"role\":\"user\",\"content\":\"hi\"},null,{\"role\":\"bogus\"}]''" exampleParser,
       THEN conjunct2, THEN conjunct2, rule_format, of ?items 1]
      example_inputs(1,5) example_turns(2,3) pre
    by (simp add: d2)
  let ?bogus = "[JObject [(js ''role'', JString (js ''bogus'')), (js ''content'', JString (js ''x''))]]"
  have d: "validateConversationJson exampleParser (js ''[{\"role\":\"bogus\",\"content\":\"x\"}]'') =
     [0x7B2C, 0x31, 0x6761, 0x6D88, 0x606F, 0x7684] @ js ''role'' @ [0x5FC5, 0x987B, 0x662F] @
     js ''user'' @ [0x3001] @ js ''assistant'' @ [0x6216] @ js ''system''"
    using validate_reports_first_violation
      [of "js ''[{\"role\":\"bogus\",\"content\":\"x\"}]''" exampleParser,
       THEN conjunct2, THEN conjunct2, rule_format, of ?bogus 0]
      example_inputs(2,6) example_turns(4,5)
    by (simp add: d2)
  have v: "decimal_value [0x31, 0x32] = 12"
    by (simp add: decimal_value_def)
  from a b c d d2(3) v show ?thesis by simp
qed

text \<open>
  Claim C10. The validator is total: a parse failure gives the parser's message or the
  generic one, no property read inside the loop throws, and a \<open>null\<close> or other falsy
  element at index \<open>k\<close>, reached after well-formed elements, is reported as missing role
  or content, in a message that carries the decimal numeral of \<open>k + 1\<close>.
\<close>

theorem validate_total_on_falsy_elements:
  "(\<forall>e. \<not> blank raw \<and> JSON_parse raw = Inl e \<longrightarrow>
      validateConversationJson JSON_parse raw = (if e \<noteq> [] then e else js ''JSON'' @ [0x683C, 0x5F0F, 0x9519, 0x8BEF])) \<and>
   (\<forall>items i. \<exists>r. checkItems i items = Inr r) \<and>
   (\<forall>items k. \<not> blank raw \<and> JSON_parse raw = Inr (JArray items) \<and> k < length items \<and>
        \<not> truthy (items ! k) \<and> (\<forall>j < k. wellFormedTurn (items ! j)) \<longrightarrow>
      validateConversationJson JSON_parse raw =
        [0x7B2C] @ decimal (k + 1) @ [0x6761, 0x6D88, 0x606F, 0x7F3A, 0x5C11] @ js ''role'' @ [0x6216] @
          js ''content'' @ [0x5B57, 0x6BB5] \<and>
      decimal (k + 1) \<noteq> [] \<and> list_all isDecimalDigit (decimal (k + 1)) \<and>
      decimal_value (decimal (k + 1)) = k + 1 \<and> hd (decimal (k + 1)) \<noteq> 0x30)"
proof (intro conjI allI impI)
  fix e assume "\<not> blank raw \<and> JSON_parse raw = Inl e"
  then show "validateConversationJson JSON_parse raw = (if e \<noteq> [] then e else js ''JSON'' @ [0x683C, 0x5F0F, 0x9519, 0x8BEF])"
    by (simp add: validateConversationJson_def trim_empty_iff catchMessage_def msgJsonFormat_def)
next
  fix items i show "\<exists>r. checkItems i items = Inr r"
    by (rule checkItems_never_throws)
next
  fix items k
  assume h: "\<not> blank raw \<and> JSON_parse raw = Inr (JArray items) \<and> k < length items \<and>
        \<not> truthy (items ! k) \<and> (\<forall>j < k. wellFormedTurn (items ! j))"
  then have m: "missingField (items ! k)" by (simp add: falsy_missingField)
  then have "\<not> wellFormedTurn (items ! k)" by (rule missingField_not_wellFormed)
  with h have "checkItems 0 items =
      Inr (if missingField (items ! k) then msgMissing (0 + k + 1) else msgRole (0 + k + 1))"
    by (intro checkItems_first_violation) simp_all
  with h m have "validateConversationJson JSON_parse raw = msgMissing (k + 1)"
    by (simp add: validateConversationJson_def trim_empty_iff)
  then show "validateConversationJson JSON_parse raw =
        [0x7B2C] @ decimal (k + 1) @ [0x6761, 0x6D88, 0x606F, 0x7F3A, 0x5C11] @ js ''role'' @ [0x6216] @
          js ''content'' @ [0x5B57, 0x6BB5]"
    by (simp add: msgMissing_def)
next
  fix items k show "decimal (k + 1) \<noteq> []" using decimal_index [of k] by blast
next
  fix items k show "list_all isDecimalDigit (decimal (k + 1))" using decimal_index [of k] by blast
next
  fix items k show "decimal_value (decimal (k + 1)) = k + 1" using decimal_index [of k] by blast
next
  fix items k show "hd (decimal (k + 1)) \<noteq> 0x30" using decimal_index [of k] by blast
qed

theorem validate_total_on_falsy_elements_witness:
  "\<not> truthy JNull \<and>
   validateConversationJson exampleParser
     (js ''[{\"role\":\"user\",\"content\":\"hi\"},null,{\"role\":\"bogus\"}]'') =
     [0x7B2C, 0x32, 0x6761, 0x6D88, 0x606F, 0x7F3A, 0x5C11] @ js ''role'' @ [0x6216] @
     js ''content'' @ [0x5B57, 0x6BB5] \<and>
   decimal_value [0x32] = 2 \<and>
   validateConversationJson exampleParser (js ''[{'') = js ''Unexpected token''"
proof -
  let ?items = "[JObject [(js ''role'', JString (js ''user'')), (js ''content'', JString (js ''hi''))],
               JNull, JObject [(js ''role'', JString (js ''bogus''))]]"
  have pre: "\<forall>j < 1. wellFormedTurn (?items ! j)"
    using example_turns(1) by simp
  have d2: "decimal (Suc (Suc 0)) = [0x32]"
    by (simp add: decimal.simps)
  note inst = validate_total_on_falsy_elements
      [of "js ''[{\"role\":\"user\",\"content\":\"hi\"},null,{\"role\":\"bogus\"}]''" exampleParser,
       THEN conjunct2, THEN conjunct2, rule_format, of ?items 1]
  have c: "validateConversationJson exampleParser
     (js ''[{\"role\":\"user\",\"content\":\"hi\"},null,{\"role\":\"bogus\"}]'') =
     [0x7B2C, 0x32, 0x6761, 0x6D88, 0x606F, 0x7F3A, 0x5C11] @ js ''role'' @ [0x6216] @
     js ''content'' @ [0x5B57, 0x6BB5]"
    using inst example_inputs(1,5) pre
    by (simp add: d2)
  have v: "decimal_value [0x32] = 2"
    using inst example_inputs(1,5) pre
    by (simp add: d2)
  have a: "validateConversationJson exampleParser (js ''[{'') = js ''Unexpected token''"
    using validate_total_on_falsy_elements [of "js ''[{''" exampleParser] example_inputs(4,8)
    by (simp add: js_def)
  from a c v show ?thesis by simp
qed

section \<open>Formatting\<close>




section \<open>The title\<close>

lemma limitTitle_nonempty: "t \<noteq> [] \<Longrightarrow> limitTitle t \<noteq> []"
  by (auto simp: limitTitle_def substring_to_def)

lemma fallbackTitle_nonempty: "fallbackTitle today \<noteq> []"
  by (simp add: fallbackTitle_def)

lemma chosenTitle_nonempty: "chosenTitle today content \<noteq> []"
  by (simp add: chosenTitle_def fallbackTitle_nonempty)

lemma limitTitle_short: "length t \<le> 50 \<Longrightarrow> limitTitle t = t"
  by (simp add: limitTitle_def)

text \<open>
  Claim C2. \<open>extractTitleFromContent\<close> returns a non-empty string on every input. On
  blank content the result is the three characters of the word for "prompt", an
  underscore and the date string, in this order and nothing else. When the content is not
  blank and the heuristics give nothing, the same text is the title: as it is for a date
  of at most 46 code units, and through the length limit for a longer one.
\<close>

theorem extractTitle_never_empty:
  "extractTitleFromContent today content \<noteq> [] \<and>
   (blank content \<longrightarrow>
      extractTitleFromContent today content = [0x63D0, 0x793A, 0x8BCD, 0x5F] @ today) \<and>
   (\<not> blank content \<and> heuristicTitle content = [] \<and> length today \<le> 46 \<longrightarrow>
      extractTitleFromContent today content = [0x63D0, 0x793A, 0x8BCD, 0x5F] @ today) \<and>
   (\<not> blank content \<and> heuristicTitle content = [] \<and> 46 < length today \<longrightarrow>
      extractTitleFromContent today content =
        take 50 ([0x63D0, 0x793A, 0x8BCD, 0x5F] @ today) @ [0x2E, 0x2E, 0x2E])"
proof (intro conjI impI)
  show "extractTitleFromContent today content \<noteq> []"
    by (simp add: extractTitleFromContent_def fallbackTitle_nonempty limitTitle_nonempty
        chosenTitle_nonempty)
next
  assume "blank content"
  then show "extractTitleFromContent today content = [0x63D0, 0x793A, 0x8BCD, 0x5F] @ today"
    by (simp add: extractTitleFromContent_def trim_empty_iff fallbackTitle_def)
next
  assume "\<not> blank content \<and> heuristicTitle content = [] \<and> length today \<le> 46"
  then show "extractTitleFromContent today content = [0x63D0, 0x793A, 0x8BCD, 0x5F] @ today"
    by (simp add: extractTitleFromContent_def trim_empty_iff chosenTitle_def fallbackTitle_def
        limitTitle_def)
next
  assume "\<not> blank content \<and> heuristicTitle content = [] \<and> 46 < length today"
  then show "extractTitleFromContent today content =
        take 50 ([0x63D0, 0x793A, 0x8BCD, 0x5F] @ today) @ [0x2E, 0x2E, 0x2E]"
    by (simp add: extractTitleFromContent_def trim_empty_iff chosenTitle_def fallbackTitle_def
        limitTitle_def substring_to_def js_def)
qed

theorem extractTitle_never_empty_witness:
  "extractTitleFromContent (js ''2026/11/2'') (js ''  '') =
     [0x63D0, 0x793A, 0x8BCD, 0x5F, 0x32, 0x30, 0x32, 0x36, 0x2F, 0x31, 0x31, 0x2F, 0x32] \<and>
   extractTitleFromContent (js ''2026/11/2'') (js ''##'') =
     [0x63D0, 0x793A, 0x8BCD, 0x5F, 0x32, 0x30, 0x32, 0x36, 0x2F, 0x31, 0x31, 0x2F, 0x32] \<and>
   extractTitleFromContent (js ''Monday, the second day of November of the year 2026'')
     (js ''##'') =
     [0x63D0, 0x793A, 0x8BCD, 0x5F] @ js ''Monday, the second day of November of the year'' @
     js ''...''"
proof -
  have b: "blank (js ''  '')" "\<not> blank (js ''##'')"
    by (simp_all add: blank_def js_def isWhiteSpace_def)
  have h: "heuristicTitle (js ''##'') = []"
    by (simp add: heuristicTitle_def stripMarkers_def
      startsWith_def trim_def js_def isWhiteSpace_def Let_def replace_first_def regex_exec_def
      search.simps first_match_def
      rxHeading_def rxStars_def rxDashes_def rxNumbered_def repeat_counts_def isDigit_def)
  have l: "length (js ''2026/11/2'') \<le> 46"
    "46 < length (js ''Monday, the second day of November of the year 2026'')"
    by (simp_all add: js_def)
  from extractTitle_never_empty [of "js ''2026/11/2''" "js ''  ''"] b(1)
  have a: "extractTitleFromContent (js ''2026/11/2'') (js ''  '') =
     [0x63D0, 0x793A, 0x8BCD, 0x5F, 0x32, 0x30, 0x32, 0x36, 0x2F, 0x31, 0x31, 0x2F, 0x32]"
    by (simp add: js_def)
  from extractTitle_never_empty [of "js ''2026/11/2''" "js ''##''"] b(2) h l(1)
  have c: "extractTitleFromContent (js ''2026/11/2'') (js ''##'') =
     [0x63D0, 0x793A, 0x8BCD, 0x5F, 0x32, 0x30, 0x32, 0x36, 0x2F, 0x31, 0x31, 0x2F, 0x32]"
    by (simp add: js_def)
  from extractTitle_never_empty
    [of "js ''Monday, the second day of November of the year 2026''" "js ''##''"] b(2) h l(2)
  have d: "extractTitleFromContent (js ''Monday, the second day of November of the year 2026'')
     (js ''##'') =
     [0x63D0, 0x793A, 0x8BCD, 0x5F] @ js ''Monday, the second day of November of the year'' @
     js ''...''"
    by (simp add: js_def)
  from a c d show ?thesis by simp
qed

text \<open>
  Claim C3. When the title before the limit is longer than 50 code units, the result is
  its first 50 code units followed by three dots, 53 code units in all; a title of at most
  50 is returned as it is. (The early return for blank content skips the limit; its title
  is within 50 for a date of at most 46 code units.)
\<close>

theorem extractTitle_length_limit:
  assumes "\<not> blank content \<or> length today \<le> 46"
  shows "(50 < length (extractedTitle today content) \<longrightarrow>
            extractTitleFromContent today content =
              take 50 (extractedTitle today content) @ js ''...'' \<and>
            length (extractTitleFromContent today content) = 53) \<and>
         (length (extractedTitle today content) \<le> 50 \<longrightarrow>
            extractTitleFromContent today content = extractedTitle today content)"
proof (cases "blank content")
  case True
  with assms have "length (fallbackTitle today) \<le> 50"
    by (simp add: fallbackTitle_def)
  with True show ?thesis
    by (simp add: extractTitleFromContent_def extractedTitle_def trim_empty_iff)
next
  case False
  then show ?thesis
    by (simp add: extractTitleFromContent_def extractedTitle_def trim_empty_iff limitTitle_def
        substring_to_def js_def)
qed

theorem extractTitle_length_limit_witness:
  "extractTitleFromContent (js ''2026/11/2'')
     (js ''- item 0123456789012345678901234567890123456789012345678901234567890123456789'') =
     js ''item 012345678901234567890123456789012345678901234...'' \<and>
   extractTitleFromContent (js ''2026/11/2'') (js ''## 12. abc'') = js ''abc''"
proof -
  let ?d = "js ''2026/11/2''"
  let ?long = "js ''- item 0123456789012345678901234567890123456789012345678901234567890123456789''"
  have nb: "\<not> blank ?long" "\<not> blank (js ''## 12. abc'')"
    by (simp_all add: blank_def js_def isWhiteSpace_def)
  have e1: "extractedTitle ?d ?long =
      js ''item 0123456789012345678901234567890123456789012345678901234567890123456789''"
    by (simp add: extractedTitle_def chosenTitle_def heuristicTitle_def stripMarkers_def
      startsWith_def trim_def js_def isWhiteSpace_def Let_def replace_first_def regex_exec_def
      search.simps first_match_def
      rxHeading_def rxStars_def rxDashes_def rxNumbered_def repeat_counts_def isDigit_def)
  have e2: "extractedTitle ?d (js ''## 12. abc'') = js ''abc''"
    by (simp add: extractedTitle_def chosenTitle_def heuristicTitle_def stripMarkers_def
      startsWith_def trim_def js_def isWhiteSpace_def Let_def replace_first_def regex_exec_def
      search.simps first_match_def
      rxHeading_def rxStars_def rxDashes_def rxNumbered_def repeat_counts_def isDigit_def)
  from extractTitle_length_limit [of ?long ?d] nb(1) e1
  have a: "extractTitleFromContent ?d ?long = js ''item 012345678901234567890123456789012345678901234...''"
    by (simp add: js_def)
  from extractTitle_length_limit [of "js ''## 12. abc''" ?d] nb(2) e2
  have b: "extractTitleFromContent ?d (js ''## 12. abc'') = js ''abc''"
    by (simp add: js_def)
  from a b show ?thesis by simp
qed

text \<open>
  Claim C5. On a line that starts with \<open># Role:\<close> the code takes
  \<open>substring(8)\<close>, though the heading has seven characters: with a space after the
  colon the title is what follows, without one the first character of the title is lost.
\<close>

theorem role_heading_cut_at_8:
  "extractTitleFromContent today (js ''# Role: Assistant'') = js ''Assistant'' \<and>
   extractTitleFromContent today (js ''# Role:Assistant'') = js ''ssistant''"
  by (simp add: extractTitleFromContent_def chosenTitle_def heuristicTitle_def limitTitle_def
      startsWith_def trim_def js_def isWhiteSpace_def substring_from_def Let_def)

lemma blank_first_segment_heuristic:
  "heuristicTitle (js ''<a>'' @ [0x0A] @ js ''<b>text</b></a>'') = []"
  by (simp add: heuristicTitle_def
      startsWith_def trim_def js_def isWhiteSpace_def Let_def xmlTitle_def
      titleFromTitleTag_def rxTitle_def regex_exec_def search.simps first_match_def lits_def
      canonicalize_def repeat_counts_def
      isLineTerminator_def isWordChar_def rolePatterns_def rxRoleAttr_def rxSection_def rxRoleTag_def
      titleFromText_def rxText_def match_global.simps remove_char_def)

text \<open>
  Claim C7. The third step of the markup path looks at the first inter-tag segment only:
  when that segment is whitespace, the title stays empty and the fallback is used, although
  a later segment has text.
\<close>

theorem blank_first_segment_falls_back:
  "match_global rxText (js ''<a>'' @ [0x0A] @ js ''<b>text</b></a>'') =
     [js ''>'' @ [0x0A] @ js ''<'', js ''>text<''] \<and>
   heuristicTitle (js ''<a>'' @ [0x0A] @ js ''<b>text</b></a>'') = [] \<and>
   extractTitleFromContent today (js ''<a>'' @ [0x0A] @ js ''<b>text</b></a>'') =
     limitTitle (fallbackTitle today)"
proof -
  have "\<not> blank (js ''<a>'' @ [0x0A] @ js ''<b>text</b></a>'')"
    by (simp add: blank_def js_def isWhiteSpace_def)
  moreover have "match_global rxText (js ''<a>'' @ [0x0A] @ js ''<b>text</b></a>'') =
     [js ''>'' @ [0x0A] @ js ''<'', js ''>text<'']"
    by (simp add: js_def rxText_def match_global.simps regex_exec_def search.simps
        first_match_def repeat_counts_def)
  ultimately show ?thesis
    using blank_first_segment_heuristic
    by (simp add: extractTitleFromContent_def chosenTitle_def trim_empty_iff)
qed

section \<open>The role patterns\<close>

text \<open>
  Claim C6. The attribute patterns find the role attribute only as the first attribute of
  a tag whose name is made of word characters: with \<open>id="role"\<close> first the element's text
  is the title, but when another attribute comes before it, or the tag name has a hyphen,
  no role pattern matches and the title is the first inter-tag text.
\<close>

theorem role_attribute_after_other_attribute_missed:
  "extractTitleFromContent (js ''2026/11/2'')
     (js ''<a>intro<b id=\"role\" class=\"x\">Helper</b></a>'') = js ''Helper'' \<and>
   roleTitleOf (rxRoleAttr ''id'')
     (js ''<a>intro<b class=\"x\" id=\"role\">Helper</b></a>'') = [] \<and>
   firstRoleTitle rolePatterns (js ''<a>intro<b class=\"x\" id=\"role\">Helper</b></a>'') = [] \<and>
   extractTitleFromContent (js ''2026/11/2'')
     (js ''<a>intro<b class=\"x\" id=\"role\">Helper</b></a>'') = js ''intro'' \<and>
   firstRoleTitle rolePatterns (js ''<a>intro<x-item id=\"role\">Helper</x-item></a>'') = [] \<and>
   extractTitleFromContent (js ''2026/11/2'')
     (js ''<a>intro<x-item id=\"role\">Helper</x-item></a>'') = js ''intro''"
  by code_simp

end
